theory Spec2Isabelle
  imports Complex_Main "HOL-Library.Sublist"
begin

section \<open>Data model of \<open>src/cache.ts\<close>\<close>

text \<open>
  A JavaScript string is modelled as a \<^typ>\<open>string\<close>: one \<^typ>\<open>char\<close> per code unit, so that
  \<^const>\<open>length\<close> is the \<open>.length\<close> of the source (the module only compares code units for
  equality, so the number of values of \<^typ>\<open>char\<close> plays no part). A JavaScript number that
  holds a time stamp is a \<^typ>\<open>real\<close> (the strict comparisons of the source are exact on
  finite doubles; \<open>NaN\<close> is outside the model).

  \<open>fs.Stats\<close>, with the fields the module reads (\<open>size\<close> is named \<open>size'\<close> here), and
  \<open>fg.Entry\<close> as produced by fast-glob with \<open>objectMode\<close> and \<open>stats\<close>: the file name, the
  path relative to the scanned directory, and the optional \<open>fs.Stats\<close>.
\<close>

record stats =
  mtimeMs :: real
  size' :: nat
  isDirectory :: bool

record entry =
  name :: string
  path :: string
  stats :: "stats option"

text \<open>
  The errors the module can end with: its own \<open>ValidationError\<close>, the plain \<open>Error\<close> thrown
  by \<open>saveCache\<close>, and the rejection of an external call (glob, stat, mkdir, child process),
  carrying the description the call rejected with.
\<close>

type_synonym rejection = string

datatype error =
    ValidationError string
  | Error string
  | Rejected rejection

section \<open>Validation\<close>

text \<open>
  \<open>checkPaths\<close>: \<open>if (!paths || paths.length === 0) throw new ValidationError(...)\<close>.
  The parameter is typed \<open>string[]\<close>, so only the length test is left.
\<close>

definition checkPaths :: "string list \<Rightarrow> error + unit" where
  "checkPaths paths =
     (if length paths = 0
      then Inl (ValidationError
        ''Path Validation Error: At least one directory or file path is required'')
      else Inr ())"

text \<open>The regular expression \<open>/^[^,]*$/\<close>: every code unit of the string differs from the comma.\<close>

definition regex_test :: "string \<Rightarrow> bool" where
  "regex_test key = list_all (\<lambda>c. c \<noteq> CHR '','') key"

definition checkKey :: "string \<Rightarrow> error + unit" where
  "checkKey key =
     (if length key > 255
      then Inl (ValidationError
        (''Key Validation Error: '' @ key @ '' cannot be larger than 255 characters.''))
      else if \<not> regex_test key
      then Inl (ValidationError
        (''Key Validation Error: '' @ key @ '' cannot contain commas.''))
      else Inr ())"

section \<open>The cache file matcher\<close>

text \<open>
  \<open>String.prototype.indexOf\<close>: the position of the first occurrence of \<open>m\<close> in \<open>s\<close>, or \<open>-1\<close>.
\<close>

fun indexOf :: "string \<Rightarrow> string \<Rightarrow> int" where
  "indexOf [] m = (if m = [] then 0 else - 1)"
| "indexOf (c # cs) m =
     (if prefix m (c # cs) then 0
      else (let i = indexOf cs m in if i = - 1 then - 1 else i + 1))"

text \<open>
  \<open>filterCacheFiles\<close>. The array \<open>potentialCaches\<close> is declared once, outside the loop over
  the matchers, and every matcher pushes onto it; the loop returns as soon as the array is
  not empty after a matcher.
\<close>

fun filterLoop :: "string list \<Rightarrow> entry list \<Rightarrow> entry list \<Rightarrow> string option \<times> entry list" where
  "filterLoop [] cacheFiles potentialCaches = (None, potentialCaches)"
| "filterLoop (filenameMatcher # rest) cacheFiles potentialCaches =
     (let potentialCaches' =
            potentialCaches @
            filter (\<lambda>cacheFile. indexOf (name cacheFile) filenameMatcher \<noteq> - 1) cacheFiles
      in if length potentialCaches' \<noteq> 0
         then (Some filenameMatcher, potentialCaches')
         else filterLoop rest cacheFiles potentialCaches')"

definition filterCacheFiles :: "string list \<Rightarrow> entry list \<Rightarrow> string option \<times> entry list" where
  "filterCacheFiles filenameMatchers cacheFiles = filterLoop filenameMatchers cacheFiles []"

text \<open>\<open>a.stats?.mtimeMs || 0\<close>: a missing \<open>stats\<close> counts as \<open>0\<close> (and \<open>0 || 0\<close> is \<open>0\<close>).\<close>

definition mtimeOf :: "entry \<Rightarrow> real" where
  "mtimeOf a = (case stats a of None \<Rightarrow> 0 | Some s \<Rightarrow> (if mtimeMs s = 0 then 0 else mtimeMs s))"

text \<open>The comparator passed to \<open>sort\<close>.\<close>

definition compareFn :: "entry \<Rightarrow> entry \<Rightarrow> int" where
  "compareFn a b =
     (let mtimeA = mtimeOf a; mtimeB = mtimeOf b
      in if mtimeA > mtimeB then 1 else if mtimeB > mtimeA then - 1 else 0)"

text \<open>
  \<open>Array.prototype.sort\<close> with a comparator is a stable sort (ECMAScript 2019): elements the
  comparator calls equal keep their order. For a consistent comparator the result is the one
  of this insertion sort.
\<close>

fun insertSorted :: "('a \<Rightarrow> 'a \<Rightarrow> int) \<Rightarrow> 'a \<Rightarrow> 'a list \<Rightarrow> 'a list" where
  "insertSorted cmp x [] = [x]"
| "insertSorted cmp x (y # ys) =
     (if cmp x y \<le> 0 then x # y # ys else y # insertSorted cmp x ys)"

definition array_sort :: "('a \<Rightarrow> 'a \<Rightarrow> int) \<Rightarrow> 'a list \<Rightarrow> 'a list" where
  "array_sort cmp xs = foldr (insertSorted cmp) xs []"

text \<open>\<open>Array.prototype.pop\<close>: the last element, \<open>undefined\<close> on an empty array.\<close>

definition pop :: "'a list \<Rightarrow> 'a option" where
  "pop xs = (if xs = [] then None else Some (last xs))"

text \<open>\<open>!key\<close> for \<open>key: string | null\<close>: true for \<open>null\<close> and for the empty string.\<close>

definition falsy :: "string option \<Rightarrow> bool" where
  "falsy key = (case key of None \<Rightarrow> True | Some k \<Rightarrow> k = [])"

definition locateCacheFile :: "string list \<Rightarrow> entry list \<Rightarrow> (string \<times> entry) option" where
  "locateCacheFile filenameMatchers cacheFiles =
     (case filterCacheFiles filenameMatchers cacheFiles of
        (key, potentialCaches) \<Rightarrow>
          if length potentialCaches = 0 \<or> falsy key then None
          else (case pop (array_sort compareFn potentialCaches) of
                  None \<Rightarrow> None
                | Some latestCacheFile \<Rightarrow>
                    (case key of None \<Rightarrow> None | Some k \<Rightarrow> Some (k, latestCacheFile))))"

section \<open>The environment and the trace of effects\<close>

text \<open>
  Everything the module reads from or does to the outside world goes through one of the
  calls below. The outcome of each call is a parameter of the model (a field of \<open>env\<close>,
  a function of the call's arguments), and every call the code issues is recorded, in order,
  in a trace of events. The libraries \<open>filenamify\<close> and \<open>path.join\<close> are pure functions
  that are not part of this repository; they are parameters as well.

  \<^item> \<open>CACHE_DIR\<close>, \<open>GITHUB_REPOSITORY\<close>: the variables of \<open>process.env\<close>;
  \<^item> \<open>cwd\<close>: \<open>process.cwd()\<close>;
  \<^item> \<open>skip_failure\<close>: \<open>core.getInput("skip-failure")\<close>, a string;
  \<^item> \<open>fg\<close>: \<open>fg(pathPattern, {...})\<close> of \<open>saveCache\<close>, the matches or a rejection;
  \<^item> \<open>fg_entries\<close>: \<open>fg(patterns, {cwd: cacheDir, objectMode: true, stats: true, ...})\<close> of
    \<open>restoreCache\<close>, the scanned entries or a rejection;
  \<^item> \<open>stat\<close>: \<open>fs.promises.stat\<close>; \<open>mkdir\<close>: \<open>fs.promises.mkdir(dir, {recursive: true})\<close>;
  \<^item> \<open>execAsync\<close>: the child process run by \<open>streamOutputUntilResolved(execAsync(cmd))\<close>,
    \<open>None\<close> when it exits normally and the error it rejects with otherwise.
\<close>

record env =
  CACHE_DIR :: "string option"
  GITHUB_REPOSITORY :: "string option"
  cwd :: string
  skip_failure :: string
  filenamify :: "string \<Rightarrow> string"
  join :: "string \<Rightarrow> string \<Rightarrow> string"
  fg :: "string \<Rightarrow> rejection + string list"
  fg_entries :: "string list \<Rightarrow> string \<Rightarrow> rejection + entry list"
  stat :: "string \<Rightarrow> rejection + stats"
  mkdir :: "string \<Rightarrow> rejection option"
  execAsync :: "string \<Rightarrow> rejection option"

text \<open>
  The log lines of \<open>core.info\<close> and \<open>core.warning\<close>. A message is kept as the template it
  was built from and the values put into it:
  \<^item> \<open>RestoringFor paths\<close>: \<open>Restoring cache for N path pattern(s): ...\<close>;
  \<^item> \<open>RestoringCache cacheFile\<close>: \<open>Restoring cache: name / Created: ... / Size: ...\<close>;
  \<^item> \<open>ExtractingToRoot\<close>: \<open>Extracting cache to project root...\<close>;
  \<^item> \<open>RestoredOk\<close>: \<open>Cache restored successfully\<close>;
  \<^item> \<open>TarError err\<close>: \<open>Error running tar: err\<close>;
  \<^item> \<open>Expanding n\<close>: \<open>Expanding n path pattern(s)...\<close>;
  \<^item> \<open>PatternMatches p n\<close>: \<open>p -> n match(es)\<close>;
  \<^item> \<open>PatternFound p d\<close>: \<open>p -> found (directory)\<close> or \<open>p -> found (file)\<close>;
  \<^item> \<open>PatternNotFound p\<close>: \<open>p -> not found (skipping)\<close>;
  \<^item> \<open>ExpandError p err\<close>: \<open>Error expanding path p: err\<close>;
  \<^item> \<open>Caching ps\<close>: \<open>Caching n path(s): ...\<close>;
  \<^item> \<open>CreatingArchive name\<close>: \<open>Creating cache archive: name\<close>;
  \<^item> \<open>SavedWithSize n\<close>: \<open>Cache saved successfully (size)\<close>;
  \<^item> \<open>SavedOk\<close>: \<open>Cache saved successfully\<close>.
\<close>

datatype level = Info | Warning

datatype message =
    RestoringFor "string list"
  | RestoringCache entry
  | ExtractingToRoot
  | RestoredOk
  | TarError rejection
  | Expanding nat
  | PatternMatches string nat
  | PatternFound string bool
  | PatternNotFound string
  | ExpandError string rejection
  | Caching "string list"
  | CreatingArchive string
  | SavedWithSize nat
  | SavedOk

text \<open>
  The events of a run: a log line, or a call of \<open>fg\<close> on one pattern (\<open>Glob\<close>), of
  \<open>fs.promises.stat\<close>, of \<open>fg\<close> on the patterns of the store (\<open>Scan\<close>, with the directory),
  of \<open>fs.promises.mkdir\<close>, or of a child process with its command line. An \<open>Exec\<close> event
  stands for the whole run of the child, the forwarding of its output included.
\<close>

datatype event =
    Log level message
  | Glob string
  | Stat string
  | Scan "string list" string
  | Mkdir string
  | Exec string

text \<open>The calls that can change the file system, and the log lines.\<close>

fun writes :: "event \<Rightarrow> bool" where
  "writes (Mkdir _) = True"
| "writes (Exec _) = True"
| "writes _ = False"

fun isLog :: "event \<Rightarrow> bool" where
  "isLog (Log _ _) = True"
| "isLog _ = False"

text \<open>\<open>x || d\<close> for an environment variable: the default when it is unset or empty.\<close>

definition orDefault :: "string option \<Rightarrow> string \<Rightarrow> string" where
  "orDefault x d = (case x of None \<Rightarrow> d | Some v \<Rightarrow> if v = [] then d else v)"

definition getCacheDirPath :: "env \<Rightarrow> string" where
  "getCacheDirPath e =
     join e (orDefault (CACHE_DIR e) ''/media/cache/'') (orDefault (GITHUB_REPOSITORY e) [])"

text \<open>\<open>core.getInput("skip-failure") || false\<close>, as a condition: any non-empty string.\<close>

definition skipFailure :: "env \<Rightarrow> bool" where
  "skipFailure e = (skip_failure e \<noteq> [])"

text \<open>The double quote of the command lines, and \<open>Array.prototype.join\<close>.\<close>

definition dq :: string where
  "dq = [CHR 0x22]"

fun array_join :: "string \<Rightarrow> string list \<Rightarrow> string" where
  "array_join sep [] = []"
| "array_join sep [x] = x"
| "array_join sep (x # y # ys) = x @ sep @ array_join sep (y # ys)"

section \<open>\<open>restoreCache\<close>\<close>

text \<open>
  The candidates: \<open>(Array.isArray(restoreKeys) && restoreKeys.length ? [primaryKey,
  ...restoreKeys] : [primaryKey]).map(key => filenamify(key))\<close>. The optional parameter
  \<open>restoreKeys\<close> is an option.
\<close>

definition filenameMatchers :: "env \<Rightarrow> string \<Rightarrow> string list option \<Rightarrow> string list" where
  "filenameMatchers e primaryKey restoreKeys =
     map (filenamify e)
       (case restoreKeys of
          None \<Rightarrow> [primaryKey]
        | Some keys \<Rightarrow> if length keys \<noteq> 0 then primaryKey # keys else [primaryKey])"

definition patterns :: "env \<Rightarrow> string \<Rightarrow> string list option \<Rightarrow> string list" where
  "patterns e primaryKey restoreKeys =
     map (\<lambda>matcher. matcher @ ''*'') (filenameMatchers e primaryKey restoreKeys)"

text \<open>
  The result is the trace of the run and either the error the promise rejects with or the
  value it resolves to (\<open>None\<close> for \<open>undefined\<close>).
\<close>

definition restoreCache ::
  "env \<Rightarrow> string list \<Rightarrow> string \<Rightarrow> string list option \<Rightarrow> event list \<times> (error + string option)" where
  "restoreCache e paths primaryKey restoreKeys =
     (case checkKey primaryKey of
        Inl err \<Rightarrow> ([], Inl err)
      | Inr _ \<Rightarrow>
     (case checkPaths paths of
        Inl err \<Rightarrow> ([], Inl err)
      | Inr _ \<Rightarrow>
     (let cacheDir = getCacheDirPath e;
          t1 = [Log Info (RestoringFor paths),
                Scan (patterns e primaryKey restoreKeys) cacheDir]
      in case fg_entries e (patterns e primaryKey restoreKeys) cacheDir of
           Inl rej \<Rightarrow> (t1, Inl (Rejected rej))
         | Inr cacheFiles \<Rightarrow>
        (case locateCacheFile (filenameMatchers e primaryKey restoreKeys) cacheFiles of
           None \<Rightarrow> (t1, Inr None)
         | Some (key, cacheFile) \<Rightarrow>
        (let cachePath = join e cacheDir (path cacheFile);
             baseDir = cwd e;
             cmd = ''tar -I zstdmt -xf '' @ dq @ cachePath @ dq @ '' -C '' @ dq @ baseDir @ dq;
             t2 = t1 @ [Log Info (RestoringCache cacheFile), Log Info ExtractingToRoot, Exec cmd]
         in case execAsync e cmd of
              None \<Rightarrow> (t2 @ [Log Info RestoredOk], Inr (Some key))
            | Some err \<Rightarrow>
           (let t3 = t2 @ [Log Warning (TarError err)]
            in if \<not> skipFailure e then (t3, Inl (Rejected err))
               else (case execAsync e (''rm -rf '' @ cachePath) of
                       Some err' \<Rightarrow> (t3 @ [Exec (''rm -rf '' @ cachePath)], Inl (Rejected err'))
                     | None \<Rightarrow> (t3 @ [Exec (''rm -rf '' @ cachePath)], Inr (Some key)))))))))"

section \<open>\<open>saveCache\<close>\<close>

text \<open>
  The loop over \<open>paths\<close>. Its state is the trace and the array \<open>expandedPaths\<close>. A rejection
  of \<open>fg\<close> is caught by the outer \<open>try\<close> (a warning, and the loop goes on); a rejection of
  \<open>stat\<close> by the inner one (an info line).
\<close>

fun expandLoop :: "env \<Rightarrow> string list \<Rightarrow> event list \<times> string list \<Rightarrow> event list \<times> string list" where
  "expandLoop e [] (t, expandedPaths) = (t, expandedPaths)"
| "expandLoop e (pathPattern # rest) (t, expandedPaths) =
     (case fg e pathPattern of
        Inl err \<Rightarrow>
          expandLoop e rest
            (t @ [Glob pathPattern, Log Warning (ExpandError pathPattern err)], expandedPaths)
      | Inr matches \<Rightarrow>
          if length matches > 0
          then expandLoop e rest
                 (t @ [Glob pathPattern, Log Info (PatternMatches pathPattern (length matches))],
                  expandedPaths @ matches)
          else (case stat e pathPattern of
                  Inr st \<Rightarrow>
                    expandLoop e rest
                      (t @ [Glob pathPattern, Stat pathPattern,
                            Log Info (PatternFound pathPattern (isDirectory st))],
                       expandedPaths @ [pathPattern])
                | Inl _ \<Rightarrow>
                    expandLoop e rest
                      (t @ [Glob pathPattern, Stat pathPattern,
                            Log Info (PatternNotFound pathPattern)],
                       expandedPaths)))"

definition saveCache :: "env \<Rightarrow> string list \<Rightarrow> string \<Rightarrow> event list \<times> (error + nat)" where
  "saveCache e paths key =
     (case checkPaths paths of
        Inl err \<Rightarrow> ([], Inl err)
      | Inr _ \<Rightarrow>
     (case checkKey key of
        Inl err \<Rightarrow> ([], Inl err)
      | Inr _ \<Rightarrow>
     (case expandLoop e paths ([Log Info (Expanding (length paths))], []) of
        (t1, expandedPaths) \<Rightarrow>
     if length expandedPaths = 0
     then (t1, Inl (Error ''No valid paths found to cache after expansion''))
     else
     (let cacheDir = getCacheDirPath e;
          cacheName = filenamify e key @ ''.tar.zst'';
          cachePath = join e cacheDir cacheName;
          baseDir = cwd e;
          t2 = t1 @ [Log Info (Caching expandedPaths), Mkdir cacheDir]
      in case mkdir e cacheDir of
           Some rej \<Rightarrow> (t2, Inl (Rejected rej))
         | None \<Rightarrow>
        (let pathsForTar = array_join '' '' (map (\<lambda>p. dq @ p @ dq) expandedPaths);
             cmd = ''tar -I zstdmt -cf '' @ dq @ cachePath @ dq @ '' -C '' @ dq @ baseDir @ dq
                   @ '' '' @ pathsForTar;
             t3 = t2 @ [Log Info (CreatingArchive cacheName), Exec cmd]
         in case execAsync e cmd of
              None \<Rightarrow>
                (case stat e cachePath of
                   Inr st \<Rightarrow> (t3 @ [Stat cachePath, Log Info (SavedWithSize (size' st))], Inr 420)
                 | Inl _ \<Rightarrow> (t3 @ [Stat cachePath, Log Info SavedOk], Inr 420))
            | Some err \<Rightarrow>
           (let t4 = t3 @ [Log Warning (TarError err), Exec (''rm -rf '' @ cachePath)]
            in case execAsync e (''rm -rf '' @ cachePath) of
                 Some err' \<Rightarrow> (t4, Inl (Rejected err'))
               | None \<Rightarrow> if \<not> skipFailure e then (t4, Inl (Rejected err)) else (t4, Inr 420)))))))"

section \<open>Sample inputs\<close>

text \<open>
  Concrete entries and environments on which the theorems below are instantiated:
  \<open>env_empty\<close> is a machine where no path exists and the store is empty; \<open>env_broken\<close> one
  where every path exists, the store holds one bundle and every \<open>tar\<close> process fails;
  \<open>env_mixed\<close> one with a glob pattern that matches two entries, a literal directory
  \<open>lit\<close> and an empty pattern that \<open>fg\<close> rejects; \<open>env_comma\<close> one whose store holds a
  bundle with a comma in its name and where every child process exits normally.
\<close>

definition sampleEntry :: "string \<Rightarrow> real \<Rightarrow> entry" where
  "sampleEntry n t =
     \<lparr>name = n, path = n, stats = Some \<lparr>mtimeMs = t, size' = 1, isDirectory = False\<rparr>\<rparr>"

definition env_empty :: env where
  "env_empty =
     \<lparr>CACHE_DIR = Some ''/cache'', GITHUB_REPOSITORY = Some ''repo'', cwd = ''/work'',
      skip_failure = [], filenamify = (\<lambda>k. k), join = (\<lambda>a b. a @ ''/'' @ b),
      fg = (\<lambda>p. Inr []), fg_entries = (\<lambda>ps dir. Inr []), stat = (\<lambda>p. Inl ''ENOENT''),
      mkdir = (\<lambda>d. None), execAsync = (\<lambda>cmd. None)\<rparr>"

definition env_broken :: env where
  "env_broken =
     \<lparr>CACHE_DIR = Some ''/cache'', GITHUB_REPOSITORY = Some ''repo'', cwd = ''/work'',
      skip_failure = [], filenamify = (\<lambda>k. k), join = (\<lambda>a b. a @ ''/'' @ b),
      fg = (\<lambda>p. Inr [p]), fg_entries = (\<lambda>ps dir. Inr [sampleEntry ''k.tar.zst'' 5]),
      stat = (\<lambda>p. Inl ''ENOENT''), mkdir = (\<lambda>d. None),
      execAsync = (\<lambda>cmd. if prefix ''tar '' cmd then Some ''exit 2'' else None)\<rparr>"

definition env_mixed :: env where
  "env_mixed =
     \<lparr>CACHE_DIR = None, GITHUB_REPOSITORY = None, cwd = ''/work'',
      skip_failure = [], filenamify = (\<lambda>k. k), join = (\<lambda>a b. a @ b),
      fg = (\<lambda>p. if p = ''a*'' then Inr [''a1'', ''a2''] else if p = [] then Inl ''TypeError''
                 else Inr []),
      fg_entries = (\<lambda>ps dir. Inr []),
      stat = (\<lambda>p. if p = ''lit''
                   then Inr \<lparr>mtimeMs = 1, size' = 0, isDirectory = True\<rparr> else Inl ''ENOENT''),
      mkdir = (\<lambda>d. None), execAsync = (\<lambda>cmd. None)\<rparr>"

definition env_comma :: env where
  "env_comma =
     \<lparr>CACHE_DIR = Some ''/cache'', GITHUB_REPOSITORY = None, cwd = ''/work'',
      skip_failure = [], filenamify = (\<lambda>k. k), join = (\<lambda>a b. a @ ''/'' @ b),
      fg = (\<lambda>p. Inr [p]), fg_entries = (\<lambda>ps dir. Inr [sampleEntry ''a,b.tar.zst'' 7]),
      stat = (\<lambda>p. Inl ''ENOENT''), mkdir = (\<lambda>d. None), execAsync = (\<lambda>cmd. None)\<rparr>"

section \<open>Properties of the matcher\<close>


lemma indexOf_lower: "- 1 \<le> indexOf s m"
  by (induction s) (auto simp: Let_def)

lemma indexOf_sublist: "indexOf s m \<noteq> - 1 \<longleftrightarrow> sublist m s"
proof (induction s)
  case Nil
  then show ?case by simp
next
  case (Cons c cs)
  have nonneg: "indexOf cs m + 1 \<noteq> - 1"
    using indexOf_lower [of cs m] by arith
  show ?case
  proof (cases "prefix m (c # cs)")
    case True
    then show ?thesis by (auto simp: sublist_Cons_right)
  next
    case False
    then show ?thesis using Cons.IH nonneg
      by (auto simp: sublist_Cons_right Let_def)
  qed
qed

lemma filterLoop_first_match:
  "filterLoop ms cfs [] =
     (case find (\<lambda>m. \<exists>f \<in> set cfs. sublist m (name f)) ms of
        None \<Rightarrow> (None, [])
      | Some m \<Rightarrow> (Some m, filter (\<lambda>f. sublist m (name f)) cfs))"
  by (induction ms) (auto simp: Let_def indexOf_sublist filter_empty_conv)

text \<open>
  Claim C1. For every ordered list of candidates and every list of scanned entries,
  \<open>filterCacheFiles\<close> selects the first candidate, in list order, that some entry's file name
  contains as a contiguous substring (anywhere in the name, not only at its start); it returns
  that candidate as the key together with exactly the entries whose name contains that
  candidate, in the order of the scan. Entries that match only later candidates are not part
  of the result. When no candidate matches, the key is \<open>null\<close> and the list is empty.
\<close>

theorem filterCacheFiles_first_match:
  "filterCacheFiles matchers cacheFiles =
     (case find (\<lambda>m. \<exists>f \<in> set cacheFiles. sublist m (name f)) matchers of
        None \<Rightarrow> (None, [])
      | Some m \<Rightarrow> (Some m, filter (\<lambda>f. sublist m (name f)) cacheFiles))"
  unfolding filterCacheFiles_def by (rule filterLoop_first_match)

theorem filterCacheFiles_first_match_witness:
  "filterCacheFiles [''zz'', ''bc'', ''a'']
     [\<lparr>name = ''abcd'', path = ''abcd'', stats = None\<rparr>,
      \<lparr>name = ''a'', path = ''a'', stats = None\<rparr>,
      \<lparr>name = ''xbc'', path = ''xbc'', stats = None\<rparr>]
   = (Some ''bc'',
      [\<lparr>name = ''abcd'', path = ''abcd'', stats = None\<rparr>,
       \<lparr>name = ''xbc'', path = ''xbc'', stats = None\<rparr>])"
  by (simp add: filterCacheFiles_first_match sublist_Cons_right)

lemma filterCacheFiles_Some_nonempty:
  assumes "filterCacheFiles ms cfs = (Some key, pcs)"
  shows "pcs \<noteq> []"
proof -
  from assms obtain m where "find (\<lambda>m. \<exists>f \<in> set cfs. sublist m (name f)) ms = Some m"
    and pcs: "pcs = filter (\<lambda>f. sublist m (name f)) cfs"
    by (auto simp: filterCacheFiles_def filterLoop_first_match split: option.splits)
  then have "\<exists>f \<in> set cfs. sublist m (name f)"
    by (auto simp: find_Some_iff)
  with pcs show ?thesis by (auto simp: filter_empty_conv)
qed

lemma filterCacheFiles_no_match:
  assumes "\<forall>m \<in> set ms. \<forall>f \<in> set cfs. \<not> sublist m (name f)"
  shows "filterCacheFiles ms cfs = (None, [])"
proof -
  have "find (\<lambda>m. \<exists>f \<in> set cfs. sublist m (name f)) ms = None"
    using assms by (auto simp: find_None_iff)
  then show ?thesis by (simp add: filterCacheFiles_def filterLoop_first_match)
qed

lemma array_sort_sort_key: "array_sort compareFn xs = sort_key mtimeOf xs"
proof -
  have ins: "insertSorted compareFn x ys = insort_key mtimeOf x ys" for x ys
    by (induction ys) (auto simp: compareFn_def Let_def)
  show ?thesis
    by (induction xs) (simp_all add: array_sort_def ins)
qed

lemma sorted_map_last_greatest:
  "sorted (map f ys) \<Longrightarrow> x \<in> set ys \<Longrightarrow> f x \<le> f (last ys)"
  by (induction ys) (auto split: if_splits)

lemma last_filter_same: "xs \<noteq> [] \<Longrightarrow> P (last xs) \<Longrightarrow> last (filter P xs) = last xs"
  by (induction xs rule: rev_induct) auto

lemma pop_array_sort:
  assumes "pcs \<noteq> []"
  shows "\<exists>latest. pop (array_sort compareFn pcs) = Some latest \<and> latest \<in> set pcs \<and>
           (\<forall>e \<in> set pcs. mtimeOf e \<le> mtimeOf latest) \<and>
           latest = last (filter (\<lambda>e. mtimeOf e = mtimeOf latest) pcs)"
proof -
  define ys where "ys = sort_key mtimeOf pcs"
  have ne: "ys \<noteq> []" using assms by (auto simp: ys_def dest: arg_cong [where f = length])
  have set_eq: "set ys = set pcs" by (simp add: ys_def)
  have srt: "sorted (map mtimeOf ys)" by (simp add: ys_def)
  have mem: "last ys \<in> set pcs" using ne set_eq last_in_set by blast
  have greatest: "\<forall>e \<in> set pcs. mtimeOf e \<le> mtimeOf (last ys)"
    using sorted_map_last_greatest [OF srt] set_eq by blast
  have "last (filter (\<lambda>e. mtimeOf e = mtimeOf (last ys)) ys) = last ys"
    using ne by (rule last_filter_same) simp
  moreover have "filter (\<lambda>e. mtimeOf e = mtimeOf (last ys)) ys
                 = filter (\<lambda>e. mtimeOf e = mtimeOf (last ys)) pcs"
    unfolding ys_def by (rule sort_key_stable)
  ultimately have stable: "last ys = last (filter (\<lambda>e. mtimeOf e = mtimeOf (last ys)) pcs)"
    by simp
  have "pop (array_sort compareFn pcs) = Some (last ys)"
    using ne by (simp add: pop_def array_sort_sort_key ys_def)
  with mem greatest stable show ?thesis by blast
qed

text \<open>
  Claim C2, as amended. Let \<open>filterCacheFiles\<close> select the candidate \<open>key\<close> with the
  (non-empty) list \<open>potentialCaches\<close> of matching entries. If \<open>key\<close> is not the empty
  string, \<open>locateCacheFile\<close> returns \<open>key\<close> with an entry of \<open>potentialCaches\<close> whose
  modification time (a missing \<open>stats\<close> counting as 0) is greatest among them; among the
  entries with that greatest time it is the last one in list order, since the sort is stable
  and \<open>pop\<close> takes the last element. If \<open>key\<close> is the empty string, the guard \<open>!key\<close> makes
  \<open>locateCacheFile\<close> return \<open>null\<close>, whatever matched.
\<close>

theorem locateCacheFile_latest:
  assumes "filterCacheFiles matchers cacheFiles = (Some key, potentialCaches)"
  shows "if key = [] then locateCacheFile matchers cacheFiles = None
         else \<exists>latest. locateCacheFile matchers cacheFiles = Some (key, latest) \<and>
                latest \<in> set potentialCaches \<and>
                (\<forall>e \<in> set potentialCaches. mtimeOf e \<le> mtimeOf latest) \<and>
                latest = last (filter (\<lambda>e. mtimeOf e = mtimeOf latest) potentialCaches)"
proof (cases "key = []")
  case True
  with assms show ?thesis by (simp add: locateCacheFile_def falsy_def)
next
  case False
  have ne: "potentialCaches \<noteq> []"
    using assms by (rule filterCacheFiles_Some_nonempty)
  from pop_array_sort [OF ne] obtain latest where
    p: "pop (array_sort compareFn potentialCaches) = Some latest" and
    rest: "latest \<in> set potentialCaches"
      "\<forall>e \<in> set potentialCaches. mtimeOf e \<le> mtimeOf latest"
      "latest = last (filter (\<lambda>e. mtimeOf e = mtimeOf latest) potentialCaches)"
    by blast
  have "locateCacheFile matchers cacheFiles = Some (key, latest)"
    using assms False ne p by (simp add: locateCacheFile_def falsy_def)
  with False rest show ?thesis by auto
qed

theorem locateCacheFile_latest_witness:
  "\<exists>latest. locateCacheFile [''zz'', ''k''] [sampleEntry ''k-1'' 5, sampleEntry ''k-2'' 9, sampleEntry ''k-3'' 9, sampleEntry ''old'' 20, \<lparr>name = ''k-4'', path = ''k-4'', stats = None\<rparr>]
       = Some (''k'', latest) \<and> latest = sampleEntry ''k-3'' 9"
proof -
  let ?cfs = "[sampleEntry ''k-1'' 5, sampleEntry ''k-2'' 9, sampleEntry ''k-3'' 9, sampleEntry ''old'' 20, \<lparr>name = ''k-4'', path = ''k-4'', stats = None\<rparr>]"
  let ?pcs = "[sampleEntry ''k-1'' 5, sampleEntry ''k-2'' 9, sampleEntry ''k-3'' 9, \<lparr>name = ''k-4'', path = ''k-4'', stats = None\<rparr>]"
  have h: "filterCacheFiles [''zz'', ''k''] ?cfs = (Some ''k'', ?pcs)"
    by (simp add: filterCacheFiles_def filterLoop_first_match sampleEntry_def sublist_Cons_right)
  show ?thesis
    using locateCacheFile_latest [OF h]
    by (auto simp: sampleEntry_def mtimeOf_def split: if_splits)
qed

text \<open>
  The claim C2 as it is written fails for the empty candidate: every file name contains the
  empty string, so \<open>filterCacheFiles\<close> selects it with all entries, and \<open>locateCacheFile\<close>
  returns \<open>null\<close>.
\<close>

theorem locateCacheFile_empty_key:
  "filterCacheFiles [''''] [sampleEntry ''k.tar.zst'' 5] = (Some '''', [sampleEntry ''k.tar.zst'' 5])
   \<and> locateCacheFile [''''] [sampleEntry ''k.tar.zst'' 5] = None"
  by (simp add: filterCacheFiles_def locateCacheFile_def falsy_def sampleEntry_def)

section \<open>Properties of the validation\<close>

lemma checkKey_cases:
  "checkKey key = Inr () \<longleftrightarrow> \<not> (255 < length key \<or> CHR '','' \<in> set key)"
  "(\<exists>msg. checkKey key = Inl (ValidationError msg)) \<longleftrightarrow> 255 < length key \<or> CHR '','' \<in> set key"
  by (auto simp: checkKey_def regex_test_def list_all_iff)

lemma checkPaths_cases:
  "checkPaths paths = Inr () \<longleftrightarrow> paths \<noteq> []"
  "(\<exists>msg. checkPaths paths = Inl (ValidationError msg)) \<longleftrightarrow> paths = []"
  by (auto simp: checkPaths_def)

lemma checkKey_error: "checkKey key = Inl err \<Longrightarrow> \<exists>msg. err = ValidationError msg"
  by (auto simp: checkKey_def split: if_splits)

lemma checkPaths_error: "checkPaths paths = Inl err \<Longrightarrow> \<exists>msg. err = ValidationError msg"
  by (auto simp: checkPaths_def split: if_splits)

lemma restoreCache_invalid:
  assumes "255 < length key \<or> CHR '','' \<in> set key \<or> paths = []"
  shows "\<exists>msg. restoreCache e paths key restoreKeys = ([], Inl (ValidationError msg))"
proof (cases "checkKey key")
  case (Inl err)
  then show ?thesis using checkKey_error [OF Inl] by (auto simp: restoreCache_def)
next
  case (Inr u)
  then have "paths = []" using assms checkKey_cases(1) [of key] by auto
  then show ?thesis using Inr by (simp add: restoreCache_def checkPaths_def)
qed

lemma saveCache_invalid:
  assumes "255 < length key \<or> CHR '','' \<in> set key \<or> paths = []"
  shows "\<exists>msg. saveCache e paths key = ([], Inl (ValidationError msg))"
proof (cases "checkPaths paths")
  case (Inl err)
  then show ?thesis using checkPaths_error [OF Inl] by (auto simp: saveCache_def)
next
  case (Inr u)
  then have "paths \<noteq> []" using checkPaths_cases(1) [of paths] by simp
  then have "255 < length key \<or> CHR '','' \<in> set key" using assms by simp
  then obtain msg where "checkKey key = Inl (ValidationError msg)"
    using checkKey_cases(2) [of key] by blast
  then show ?thesis using Inr by (simp add: saveCache_def)
qed

text \<open>
  Claim C5. \<open>checkKey\<close> raises \<open>ValidationError\<close> exactly for a key of more than 255
  characters or with a comma, and accepts every other key (so a key of 255 characters without
  a comma is accepted); \<open>checkPaths\<close> raises \<open>ValidationError\<close> exactly for the empty list.
  Both \<open>saveCache\<close> and \<open>restoreCache\<close> run the checks first: when a check fails, the run
  ends with the \<open>ValidationError\<close> and an empty trace, so no call to the file system, to a
  child process or to the log has been made and the store is as it was.
\<close>

theorem validation_before_io:
  "((\<exists>msg. checkKey key = Inl (ValidationError msg)) \<longleftrightarrow> 255 < length key \<or> CHR '','' \<in> set key) \<and>
   (checkKey key = Inr () \<longleftrightarrow> length key \<le> 255 \<and> CHR '','' \<notin> set key) \<and>
   ((\<exists>msg. checkPaths paths = Inl (ValidationError msg)) \<longleftrightarrow> paths = []) \<and>
   (checkPaths paths = Inr () \<longleftrightarrow> paths \<noteq> []) \<and>
   (255 < length key \<or> CHR '','' \<in> set key \<or> paths = [] \<longrightarrow>
      (\<exists>msg. saveCache e paths key = ([], Inl (ValidationError msg))) \<and>
      (\<exists>msg. restoreCache e paths key restoreKeys = ([], Inl (ValidationError msg))))"
  using checkKey_cases [of key] checkPaths_cases [of paths]
    saveCache_invalid [of key paths e] restoreCache_invalid [of key paths e restoreKeys]
  by (simp add: not_less)

theorem validation_before_io_witness:
  "checkKey (replicate 255 CHR ''a'') = Inr () \<and>
   (\<exists>msg. checkKey (replicate 256 CHR ''a'') = Inl (ValidationError msg)) \<and>
   (\<exists>msg. saveCache env_broken [''p''] ''a,b'' = ([], Inl (ValidationError msg))) \<and>
   (\<exists>msg. restoreCache env_broken [] ''k'' None = ([], Inl (ValidationError msg)))"
  using validation_before_io [of "replicate 255 CHR ''a''" "[]" env_broken None]
    validation_before_io [of "replicate 256 CHR ''a''" "[]" env_broken None]
    validation_before_io [of "''a,b''" "[''p'']" env_broken None]
    validation_before_io [of "''k''" "[]" env_broken None]
  by simp

section \<open>Path expansion\<close>

lemma expandLoop_paths:
  "snd (expandLoop e ps (t, acc)) =
     acc @ concat (map (\<lambda>p. case fg e p of
                              Inl _ \<Rightarrow> []
                            | Inr matches \<Rightarrow>
                                if matches \<noteq> [] then matches
                                else (case stat e p of Inr _ \<Rightarrow> [p] | Inl _ \<Rightarrow> [])) ps)"
  by (induction ps arbitrary: t acc) (auto split: sum.splits)

lemma expandLoop_no_writes:
  "list_all (\<lambda>ev. \<not> writes ev) t \<Longrightarrow>
   list_all (\<lambda>ev. \<not> writes ev) (fst (expandLoop e ps (t, acc)))"
  by (induction ps arbitrary: t acc) (simp_all split: sum.splits)

text \<open>
  Claim C7, as amended. The loop of \<open>saveCache\<close> goes through the path list in order and
  each entry adds to the result, and to the trace, on its own: when \<open>fg\<close> rejects, the entry
  is dropped with a warning (\<open>core.warning\<close>) and without the check for a literal path; when
  \<open>fg\<close> returns at least one match, all matches are appended in the order returned; when it
  returns none and \<open>stat\<close> succeeds, the entry is appended as it is; when it returns none
  and \<open>stat\<close> fails, the entry is dropped with an info line (\<open>core.info\<close>, "not found
  (skipping)"). The loop goes on in every case; the result is the concatenation of the
  contributions in list order, after what was there before, and nothing removes duplicates.
\<close>

theorem expandLoop_in_order:
  "expandLoop e paths (t, expandedPaths) =
     (t @ concat (map (\<lambda>p. case fg e p of
                 Inl err \<Rightarrow> [Glob p, Log Warning (ExpandError p err)]
               | Inr matches \<Rightarrow>
                   if matches \<noteq> []
                   then [Glob p, Log Info (PatternMatches p (length matches))]
                   else (case stat e p of
                           Inr st \<Rightarrow> [Glob p, Stat p, Log Info (PatternFound p (isDirectory st))]
                         | Inl _ \<Rightarrow> [Glob p, Stat p, Log Info (PatternNotFound p)])) paths),
      expandedPaths @ concat (map (\<lambda>p. case fg e p of
                 Inl _ \<Rightarrow> []
               | Inr matches \<Rightarrow>
                   if matches \<noteq> [] then matches
                   else (case stat e p of Inr _ \<Rightarrow> [p] | Inl _ \<Rightarrow> [])) paths))"
  by (induction paths arbitrary: t expandedPaths) (auto split: sum.splits)

theorem expandLoop_in_order_witness:
  "expandLoop env_mixed [''a*'', ''lit'', ''missing'', [], ''a*''] ([], []) =
     ([Glob ''a*'', Log Info (PatternMatches ''a*'' 2),
       Glob ''lit'', Stat ''lit'', Log Info (PatternFound ''lit'' True),
       Glob ''missing'', Stat ''missing'', Log Info (PatternNotFound ''missing''),
       Glob [], Log Warning (ExpandError [] ''TypeError''),
       Glob ''a*'', Log Info (PatternMatches ''a*'' 2)],
      [''a1'', ''a2'', ''lit'', ''a1'', ''a2''])"
  by (simp add: expandLoop_in_order env_mixed_def)

text \<open>
  The claim C7 as it is written has the entry that matches nothing and does not exist
  dropped with a warning. The code logs it with \<open>core.info\<close>: the trace of such an entry
  holds no warning.
\<close>

theorem expandLoop_not_found_logs_info:
  "fg env_mixed ''missing'' = Inr [] \<and> stat env_mixed ''missing'' = Inl ''ENOENT'' \<and>
   expandLoop env_mixed [''missing''] ([], []) =
     ([Glob ''missing'', Stat ''missing'', Log Info (PatternNotFound ''missing'')], [])"
  by (simp add: env_mixed_def)

text \<open>
  Claim C6, as amended. For every key that passes \<open>checkKey\<close> and every non-empty path list
  in which no entry has a glob match and no entry exists as a literal path, \<open>saveCache\<close>
  fails with the plain error "No valid paths found to cache after expansion", and its trace
  holds no \<open>mkdir\<close> and no child process: the store directory is not created, the archive
  tool is not run and no bundle is written.
\<close>

theorem saveCache_no_valid_paths:
  assumes "checkKey key = Inr ()" and "paths \<noteq> []"
    and "\<forall>p \<in> set paths. (\<forall>matches. fg e p = Inr matches \<longrightarrow> matches = []) \<and> isl (stat e p)"
  shows "snd (saveCache e paths key) = Inl (Error ''No valid paths found to cache after expansion'')
         \<and> (\<forall>ev \<in> set (fst (saveCache e paths key)). \<not> writes ev)"
proof -
  let ?t0 = "[Log Info (Expanding (length paths))]"
  obtain t1 ex where run: "expandLoop e paths (?t0, []) = (t1, ex)"
    by (cases "expandLoop e paths (?t0, [])")
  have "snd (expandLoop e paths (?t0, [])) = []"
    unfolding expandLoop_paths using assms(3)
    by (auto split: sum.splits simp: isl_def)
  then have ex: "ex = []" using run by simp
  have "list_all (\<lambda>ev. \<not> writes ev) (fst (expandLoop e paths (?t0, [])))"
    by (rule expandLoop_no_writes) simp
  then have t1: "\<forall>ev \<in> set t1. \<not> writes ev" using run by (simp add: list_all_iff)
  have cp: "checkPaths paths = Inr ()" using assms(2) by (simp add: checkPaths_def)
  have "saveCache e paths key = (t1, Inl (Error ''No valid paths found to cache after expansion''))"
    using assms(1) cp run ex by (simp add: saveCache_def)
  then show ?thesis using t1 by simp
qed

theorem saveCache_no_valid_paths_witness:
  "saveCache env_empty [''missing'', ''dist/*''] ''k'' =
     ([Log Info (Expanding 2),
       Glob ''missing'', Stat ''missing'', Log Info (PatternNotFound ''missing''),
       Glob ''dist/*'', Stat ''dist/*'', Log Info (PatternNotFound ''dist/*'')],
      Inl (Error ''No valid paths found to cache after expansion''))"
proof -
  have k: "checkKey ''k'' = Inr ()" by (simp add: checkKey_def regex_test_def)
  have p: "[''missing'', ''dist/*''] \<noteq> []" by simp
  have h: "\<forall>p \<in> set [''missing'', ''dist/*''].
             (\<forall>matches. fg env_empty p = Inr matches \<longrightarrow> matches = []) \<and> isl (stat env_empty p)"
    by (simp add: env_empty_def)
  have tr: "fst (saveCache env_empty [''missing'', ''dist/*''] ''k'') =
     [Log Info (Expanding 2),
       Glob ''missing'', Stat ''missing'', Log Info (PatternNotFound ''missing''),
       Glob ''dist/*'', Stat ''dist/*'', Log Info (PatternNotFound ''dist/*'')]"
    by (simp add: saveCache_def checkKey_def regex_test_def checkPaths_def env_empty_def)
  show ?thesis
    using saveCache_no_valid_paths [OF k p h] tr by (simp add: prod_eq_iff)
qed

text \<open>
  The claim C6 as it is written does not ask for a valid key. With a key that holds a comma
  the same path list fails in \<open>checkKey\<close>, with a \<open>ValidationError\<close> and not with the plain
  error.
\<close>

theorem saveCache_invalid_key_counterexample:
  "[''missing''] \<noteq> [] \<and> fg env_empty ''missing'' = Inr [] \<and> isl (stat env_empty ''missing'') \<and>
   saveCache env_empty [''missing''] ''a,b'' =
     ([], Inl (ValidationError ''Key Validation Error: a,b cannot contain commas.'')) \<and>
   snd (saveCache env_empty [''missing''] ''a,b'') \<noteq>
     Inl (Error ''No valid paths found to cache after expansion'')"
  by (simp add: saveCache_def checkKey_def regex_test_def checkPaths_def env_empty_def)

section \<open>Restoring\<close>

lemma locateCacheFile_no_match:
  assumes "\<forall>m \<in> set ms. \<forall>f \<in> set cfs. \<not> sublist m (name f)"
  shows "locateCacheFile ms cfs = None"
  using filterCacheFiles_no_match [OF assms] by (simp add: locateCacheFile_def)

text \<open>
  Claim C8. For a fixed environment (store contents included), primary key and fallback
  list, any two non-empty path lists give the same outcome of \<open>restoreCache\<close> (the same
  matched key, miss or error) and the same external calls in the same order: the same scan
  of the store and the same \<open>tar\<close> command, hence the same bundle unpacked into the same
  directory. The two traces differ at most in their first event, the info line that prints
  the path list.
\<close>

theorem restoreCache_paths_irrelevant:
  assumes "paths1 \<noteq> []" and "paths2 \<noteq> []"
  shows "snd (restoreCache e paths1 primaryKey restoreKeys) =
           snd (restoreCache e paths2 primaryKey restoreKeys) \<and>
         filter (\<lambda>ev. \<not> isLog ev) (fst (restoreCache e paths1 primaryKey restoreKeys)) =
           filter (\<lambda>ev. \<not> isLog ev) (fst (restoreCache e paths2 primaryKey restoreKeys)) \<and>
         tl (fst (restoreCache e paths1 primaryKey restoreKeys)) =
           tl (fst (restoreCache e paths2 primaryKey restoreKeys))"
  using assms
  by (simp add: restoreCache_def checkPaths_def Let_def
           split: sum.splits option.splits prod.splits)

theorem restoreCache_paths_irrelevant_witness:
  "[''node_modules''] \<noteq> [] \<and> [''dist'', ''build/*''] \<noteq> [] \<and>
   snd (restoreCache env_comma [''node_modules''] ''primary'' (Some [''a,b''])) =
     snd (restoreCache env_comma [''dist'', ''build/*''] ''primary'' (Some [''a,b''])) \<and>
   tl (fst (restoreCache env_comma [''node_modules''] ''primary'' (Some [''a,b'']))) =
     tl (fst (restoreCache env_comma [''dist'', ''build/*''] ''primary'' (Some [''a,b''])))"
  using restoreCache_paths_irrelevant
    [of "[''node_modules'']" "[''dist'', ''build/*'']" env_comma "''primary''" "Some [''a,b'']"]
  by simp

text \<open>
  Claim C9, as amended. For every primary key that passes \<open>checkKey\<close>, every non-empty path
  list and every fallback list such that the scan of the store returns and no candidate is
  contained in the name of a scanned entry, \<open>restoreCache\<close> resolves to \<open>undefined\<close>, and its
  trace is the first info line and the scan of the store, nothing else: no child process is
  run and nothing is extracted.
\<close>

theorem restoreCache_miss:
  assumes "checkKey primaryKey = Inr ()" and "paths \<noteq> []"
    and "fg_entries e (patterns e primaryKey restoreKeys) (getCacheDirPath e) = Inr cacheFiles"
    and "\<forall>m \<in> set (filenameMatchers e primaryKey restoreKeys).
           \<forall>f \<in> set cacheFiles. \<not> sublist m (name f)"
  shows "restoreCache e paths primaryKey restoreKeys =
           ([Log Info (RestoringFor paths),
             Scan (patterns e primaryKey restoreKeys) (getCacheDirPath e)], Inr None)"
  using assms(1-3) locateCacheFile_no_match [OF assms(4)]
  by (simp add: restoreCache_def checkPaths_def Let_def)

theorem restoreCache_miss_witness:
  "restoreCache env_broken [''node_modules''] ''zz'' (Some [''yy'']) =
     ([Log Info (RestoringFor [''node_modules'']), Scan [''zz*'', ''yy*''] ''/cache/repo''],
      Inr None)"
proof -
  have k: "checkKey ''zz'' = Inr ()" by (simp add: checkKey_def regex_test_def)
  have p: "[''node_modules''] \<noteq> []" by simp
  have s: "fg_entries env_broken (patterns env_broken ''zz'' (Some [''yy'']))
             (getCacheDirPath env_broken) = Inr [sampleEntry ''k.tar.zst'' 5]"
    by (simp add: env_broken_def)
  have n: "\<forall>m \<in> set (filenameMatchers env_broken ''zz'' (Some [''yy''])).
             \<forall>f \<in> set [sampleEntry ''k.tar.zst'' 5]. \<not> sublist m (name f)"
    by (simp add: filenameMatchers_def env_broken_def sampleEntry_def sublist_Cons_right)
  show ?thesis
    using restoreCache_miss [OF k p s n]
    by (simp add: patterns_def filenameMatchers_def getCacheDirPath_def orDefault_def
        env_broken_def)
qed

text \<open>
  The claim C9 as it is written does not ask for a non-empty path list. With the empty list,
  a valid key and a store without any match, \<open>restoreCache\<close> ends with a \<open>ValidationError\<close>,
  not with an absent result.
\<close>

theorem restoreCache_miss_empty_paths:
  "checkKey ''k'' = Inr () \<and>
   fg_entries env_empty (patterns env_empty ''k'' None) (getCacheDirPath env_empty) = Inr [] \<and>
   restoreCache env_empty [] ''k'' None =
     ([], Inl (ValidationError
        ''Path Validation Error: At least one directory or file path is required''))"
  by (simp add: restoreCache_def checkKey_def regex_test_def checkPaths_def env_empty_def)

lemma restoreCache_ValidationError_iff:
  "(\<exists>msg. snd (restoreCache e paths primaryKey restoreKeys) = Inl (ValidationError msg)) \<longleftrightarrow>
     255 < length primaryKey \<or> CHR '','' \<in> set primaryKey \<or> paths = []"
proof
  assume "255 < length primaryKey \<or> CHR '','' \<in> set primaryKey \<or> paths = []"
  from restoreCache_invalid [OF this, of e restoreKeys]
  show "\<exists>msg. snd (restoreCache e paths primaryKey restoreKeys) = Inl (ValidationError msg)"
    by auto
next
  assume "\<exists>msg. snd (restoreCache e paths primaryKey restoreKeys) = Inl (ValidationError msg)"
  then obtain msg where
    r: "snd (restoreCache e paths primaryKey restoreKeys) = Inl (ValidationError msg)" ..
  show "255 < length primaryKey \<or> CHR '','' \<in> set primaryKey \<or> paths = []"
  proof (rule ccontr)
    assume "\<not> ?thesis"
    then have "checkKey primaryKey = Inr ()" "checkPaths paths = Inr ()"
      using checkKey_cases(1) [of primaryKey] checkPaths_cases(1) [of paths] by auto
    with r show False
      by (simp add: restoreCache_def Let_def
               split: sum.splits option.splits prod.splits if_splits)
  qed
qed

text \<open>
  Claim C10. \<open>restoreCache\<close> validates the primary key only. Whether it ends with a
  \<open>ValidationError\<close> depends on the primary key and on the path list, never on the fallback
  keys, whatever their length and whether or not they hold a comma. In a run that passes
  validation every fallback key goes through \<open>filenamify\<close> like the primary key: the store is
  scanned with the patterns of the primary key and of all fallback keys, and the candidates
  given to \<open>locateCacheFile\<close> are the sanitized primary key followed by the sanitized
  fallback keys; a miss there is the result \<open>undefined\<close>, a hit is unpacked and, when \<open>tar\<close>
  exits normally, its key is the result.
\<close>

theorem restoreKeys_not_validated:
  "((\<exists>msg. snd (restoreCache e paths primaryKey (Some keys)) = Inl (ValidationError msg)) \<longleftrightarrow>
      255 < length primaryKey \<or> CHR '','' \<in> set primaryKey \<or> paths = []) \<and>
   (checkKey primaryKey = Inr () \<and> paths \<noteq> [] \<and> keys \<noteq> [] \<longrightarrow>
      take 2 (fst (restoreCache e paths primaryKey (Some keys))) =
        [Log Info (RestoringFor paths),
         Scan (map (\<lambda>k. filenamify e k @ ''*'') (primaryKey # keys)) (getCacheDirPath e)] \<and>
      (\<forall>cacheFiles.
         fg_entries e (map (\<lambda>k. filenamify e k @ ''*'') (primaryKey # keys)) (getCacheDirPath e)
           = Inr cacheFiles \<longrightarrow>
         (case locateCacheFile (map (filenamify e) (primaryKey # keys)) cacheFiles of
            None \<Rightarrow> snd (restoreCache e paths primaryKey (Some keys)) = Inr None
          | Some (key, cacheFile) \<Rightarrow>
              Exec (''tar -I zstdmt -xf '' @ dq @ join e (getCacheDirPath e) (path cacheFile) @ dq
                    @ '' -C '' @ dq @ cwd e @ dq)
                \<in> set (fst (restoreCache e paths primaryKey (Some keys))) \<and>
              (execAsync e (''tar -I zstdmt -xf '' @ dq @ join e (getCacheDirPath e) (path cacheFile)
                    @ dq @ '' -C '' @ dq @ cwd e @ dq) = None \<longrightarrow>
               snd (restoreCache e paths primaryKey (Some keys)) = Inr (Some key)))))"
proof (intro conjI impI allI)
  show "(\<exists>msg. snd (restoreCache e paths primaryKey (Some keys)) = Inl (ValidationError msg)) \<longleftrightarrow>
      255 < length primaryKey \<or> CHR '','' \<in> set primaryKey \<or> paths = []"
    by (rule restoreCache_ValidationError_iff)
next
  assume a: "checkKey primaryKey = Inr () \<and> paths \<noteq> [] \<and> keys \<noteq> []"
  then show "take 2 (fst (restoreCache e paths primaryKey (Some keys))) =
        [Log Info (RestoringFor paths),
         Scan (map (\<lambda>k. filenamify e k @ ''*'') (primaryKey # keys)) (getCacheDirPath e)]"
    by (simp add: restoreCache_def checkPaths_def Let_def patterns_def filenameMatchers_def
          comp_def split: sum.splits option.splits prod.splits)
next
  fix cacheFiles
  assume a: "checkKey primaryKey = Inr () \<and> paths \<noteq> [] \<and> keys \<noteq> []"
    and s: "fg_entries e (map (\<lambda>k. filenamify e k @ ''*'') (primaryKey # keys))
              (getCacheDirPath e) = Inr cacheFiles"
  have pat: "patterns e primaryKey (Some keys) =
               map (\<lambda>k. filenamify e k @ ''*'') (primaryKey # keys)"
    and fm: "filenameMatchers e primaryKey (Some keys) = map (filenamify e) (primaryKey # keys)"
    using a by (simp_all add: patterns_def filenameMatchers_def comp_def)
  show "case locateCacheFile (map (filenamify e) (primaryKey # keys)) cacheFiles of
            None \<Rightarrow> snd (restoreCache e paths primaryKey (Some keys)) = Inr None
          | Some (key, cacheFile) \<Rightarrow>
              Exec (''tar -I zstdmt -xf '' @ dq @ join e (getCacheDirPath e) (path cacheFile) @ dq
                    @ '' -C '' @ dq @ cwd e @ dq)
                \<in> set (fst (restoreCache e paths primaryKey (Some keys))) \<and>
              (execAsync e (''tar -I zstdmt -xf '' @ dq @ join e (getCacheDirPath e) (path cacheFile)
                    @ dq @ '' -C '' @ dq @ cwd e @ dq) = None \<longrightarrow>
               snd (restoreCache e paths primaryKey (Some keys)) = Inr (Some key))"
    using a s
    by (simp add: restoreCache_def checkPaths_def Let_def pat fm
             split: sum.splits option.splits prod.splits)
qed

theorem restoreKeys_not_validated_witness:
  "\<not> (\<exists>msg. snd (restoreCache env_comma [''node_modules''] ''primary''
                   (Some [''a,b'', replicate 300 CHR ''x''])) = Inl (ValidationError msg)) \<and>
   snd (restoreCache env_comma [''node_modules''] ''primary''
          (Some [''a,b'', replicate 300 CHR ''x''])) = Inr (Some ''a,b'')"
proof -
  let ?keys = "[''a,b'', replicate 300 CHR ''x'']"
  let ?file = "sampleEntry ''a,b.tar.zst'' 7"
  have v: "checkKey ''primary'' = Inr () \<and> [''node_modules''] \<noteq> [] \<and> ?keys \<noteq> []"
    by (simp add: checkKey_def regex_test_def)
  have s: "fg_entries env_comma (map (\<lambda>k. filenamify env_comma k @ ''*'') (''primary'' # ?keys))
             (getCacheDirPath env_comma) = Inr [?file]"
    by (simp add: env_comma_def)
  have f: "filterCacheFiles (map (filenamify env_comma) (''primary'' # ?keys)) [?file]
             = (Some ''a,b'', [?file])"
    by (simp add: filterCacheFiles_def filterLoop_first_match env_comma_def sampleEntry_def
          sublist_Cons_right)
  have l: "locateCacheFile (map (filenamify env_comma) (''primary'' # ?keys)) [?file]
             = Some (''a,b'', ?file)"
    unfolding locateCacheFile_def f
    by (simp add: falsy_def pop_def array_sort_def)
  have x: "execAsync env_comma c = None" for c
    by (simp add: env_comma_def)
  show ?thesis
    using restoreKeys_not_validated [of env_comma "[''node_modules'']" "''primary''" ?keys]
      v s l x
    by simp
qed

section \<open>Failure of the archive tool\<close>

text \<open>
  Where the bundle is removed. \<open>restoreCache\<close> runs \<open>rm -rf\<close> only when \<open>skip-failure\<close> is
  set. \<open>saveCache\<close> runs it whenever it rejects after the archive tool was started: the
  removal is then the last event of the run.
\<close>

lemma restoreCache_cleanup_only_when_skipping:
  "Exec (''rm -rf '' @ p) \<in> set (fst (restoreCache e paths primaryKey restoreKeys))
     \<Longrightarrow> skipFailure e"
  by (auto simp: restoreCache_def Let_def dq_def
           split: sum.splits option.splits prod.splits if_splits)

lemma saveCache_cleanup_before_rethrow:
  assumes "Exec cmd \<in> set (fst (saveCache e ps key))" and "prefix ''tar '' cmd"
    and "snd (saveCache e ps key) = Inl err"
  shows "last (fst (saveCache e ps key)) =
           Exec (''rm -rf '' @ join e (getCacheDirPath e) (filenamify e key @ ''.tar.zst''))"
proof -
  let ?t0 = "[Log Info (Expanding (length ps))]"
  obtain t1 ex where run: "expandLoop e ps (?t0, []) = (t1, ex)"
    by (cases "expandLoop e ps (?t0, [])")
  have "list_all (\<lambda>ev. \<not> writes ev) (fst (expandLoop e ps (?t0, [])))"
    by (rule expandLoop_no_writes) simp
  then have t1: "Exec c \<notin> set t1" for c
    using run by (auto simp: list_all_iff)
  show ?thesis
    using assms run t1
    by (auto simp: saveCache_def Let_def split: sum.splits option.splits if_splits)
qed

text \<open>
  Claim C3 at an input where it fails. Every \<open>tar\<close> process fails in \<open>env_broken\<close> and the
  input \<open>skip-failure\<close> is empty. \<open>restoreCache\<close> finds the bundle, runs \<open>tar\<close>, logs the
  warning and rejects with the error of \<open>tar\<close>: no \<open>rm -rf\<close> is run, the bundle stays.
  \<open>saveCache\<close> on the same machine runs \<open>rm -rf\<close> on the bundle and rejects only then.
\<close>

theorem restoreCache_rethrows_before_cleanup:
  "restoreCache env_broken [''node_modules''] ''k'' None =
     ([Log Info (RestoringFor [''node_modules'']),
       Scan [''k*''] ''/cache/repo'',
       Log Info (RestoringCache (sampleEntry ''k.tar.zst'' 5)),
       Log Info ExtractingToRoot,
       Exec (''tar -I zstdmt -xf '' @ dq @ ''/cache/repo/k.tar.zst'' @ dq @ '' -C '' @ dq @ ''/work'' @ dq),
       Log Warning (TarError ''exit 2'')],
      Inl (Rejected ''exit 2'')) \<and>
   saveCache env_broken [''node_modules''] ''k'' =
     ([Log Info (Expanding 1),
       Glob ''node_modules'', Log Info (PatternMatches ''node_modules'' 1),
       Log Info (Caching [''node_modules'']),
       Mkdir ''/cache/repo'',
       Log Info (CreatingArchive ''k.tar.zst''),
       Exec (''tar -I zstdmt -cf '' @ dq @ ''/cache/repo/k.tar.zst'' @ dq @ '' -C '' @ dq @ ''/work'' @ dq
             @ '' '' @ dq @ ''node_modules'' @ dq),
       Log Warning (TarError ''exit 2''),
       Exec ''rm -rf /cache/repo/k.tar.zst''],
      Inl (Rejected ''exit 2''))"
  by (simp add: restoreCache_def saveCache_def checkKey_def regex_test_def checkPaths_def
        Let_def patterns_def filenameMatchers_def getCacheDirPath_def orDefault_def
        locateCacheFile_def filterCacheFiles_def falsy_def pop_def array_sort_def
        skipFailure_def env_broken_def sampleEntry_def dq_def)

text \<open>
  Claim C4 at an input where it fails. Every \<open>tar\<close> process fails in \<open>env_broken\<close>; here the
  input \<open>skip-failure\<close> is set. \<open>restoreCache\<close> finds the bundle, runs \<open>tar\<close>, logs the
  warning, issues \<open>rm -rf\<close> with the path of the bundle and then leaves the \<open>catch\<close>
  block for its ordinary
  \<open>return key\<close>: it resolves to the matched key, where its documentation has \<open>undefined\<close>
  for everything but a cache hit. \<open>saveCache\<close> does the same and resolves to \<open>420\<close>, where
  its documentation has the identifier returned only if the cache was saved.
\<close>

theorem skipFailure_returns_success_value:
  "skipFailure (env_broken\<lparr>skip_failure := ''true''\<rparr>) \<and>
   restoreCache (env_broken\<lparr>skip_failure := ''true''\<rparr>) [''node_modules''] ''k'' None =
     ([Log Info (RestoringFor [''node_modules'']),
       Scan [''k*''] ''/cache/repo'',
       Log Info (RestoringCache (sampleEntry ''k.tar.zst'' 5)),
       Log Info ExtractingToRoot,
       Exec (''tar -I zstdmt -xf '' @ dq @ ''/cache/repo/k.tar.zst'' @ dq @ '' -C '' @ dq @ ''/work'' @ dq),
       Log Warning (TarError ''exit 2''),
       Exec ''rm -rf /cache/repo/k.tar.zst''],
      Inr (Some ''k'')) \<and>
   saveCache (env_broken\<lparr>skip_failure := ''true''\<rparr>) [''node_modules''] ''k'' =
     ([Log Info (Expanding 1),
       Glob ''node_modules'', Log Info (PatternMatches ''node_modules'' 1),
       Log Info (Caching [''node_modules'']),
       Mkdir ''/cache/repo'',
       Log Info (CreatingArchive ''k.tar.zst''),
       Exec (''tar -I zstdmt -cf '' @ dq @ ''/cache/repo/k.tar.zst'' @ dq @ '' -C '' @ dq @ ''/work'' @ dq
             @ '' '' @ dq @ ''node_modules'' @ dq),
       Log Warning (TarError ''exit 2''),
       Exec ''rm -rf /cache/repo/k.tar.zst''],
      Inr 420)"
  by (simp add: restoreCache_def saveCache_def checkKey_def regex_test_def checkPaths_def
        Let_def patterns_def filenameMatchers_def getCacheDirPath_def orDefault_def
        locateCacheFile_def filterCacheFiles_def falsy_def pop_def array_sort_def
        skipFailure_def env_broken_def sampleEntry_def dq_def)

end
